theory Spec2Isabelle
  imports Main "HOL-Library.AList"
begin

section \<open>Python values shared by both modules\<close>

text \<open>
  Exceptions are values. \<open>AssertionError\<close> is what a failed \<^verbatim>\<open>assert\<close> raises,
  \<open>Exception\<close> and \<open>ValueError\<close> carry the message of the \<^verbatim>\<open>raise\<close> statement,
  \<open>KeyError\<close> carries the missing key, \<open>External\<close> is any failure raised inside a
  collaborator that is called but not defined by these two modules.
\<close>

datatype error =
    AssertionError
  | ValueError string
  | KeyError string
  | TypeError string
  | RuntimeError string
  | Exception string
  | External string

text \<open>
  A Python \<^verbatim>\<open>dict\<close> keeps its keys in insertion order: it is an association list with
  distinct keys. \<^verbatim>\<open>d[k] = v\<close> is \<^const>\<open>AList.update\<close> (an existing key keeps its
  position, a new key goes last), \<^verbatim>\<open>del d[k]\<close> is \<^const>\<open>AList.delete\<close>, \<^verbatim>\<open>d[k]\<close> is
  \<^const>\<open>map_of\<close>, with the \<^verbatim>\<open>KeyError\<close> written out.
\<close>

type_synonym ('k, 'v) dict = "('k \<times> 'v) list"

definition keys :: "('k, 'v) dict \<Rightarrow> 'k list" where
  "keys d = map fst d"

definition dict_pop :: "string \<Rightarrow> (string, 'v) dict \<Rightarrow> error + ('v \<times> (string, 'v) dict)" where
  "dict_pop k d =
     (case map_of d k of
        None \<Rightarrow> Inl (KeyError k)
      | Some v \<Rightarrow> Inr (v, AList.delete k d))"

section \<open>payload.py\<close>

subsection \<open>Tensors, dataset and loader (collaborators)\<close>

text \<open>
  Of a \<^verbatim>\<open>torch.Tensor\<close> the module reads \<^verbatim>\<open>dim()\<close> only; a tensor is its shape and
  its elements in row-major order. \<^verbatim>\<open>torch.stack(ts, dim=0)\<close> needs a non-empty list
  of tensors of one shape and puts a new leading dimension in front. Its
  \<^verbatim>\<open>RuntimeError\<close> for unequal shapes is kept by its leading words; torch goes on to
  name the two shapes and their positions in the list.
\<close>

datatype tensor = Tensor (shape: "nat list") (elems: "int list")

definition dim :: "tensor \<Rightarrow> nat" where
  "dim t = length (shape t)"

fun torch_stack :: "tensor list \<Rightarrow> error + tensor" where
  "torch_stack [] = Inl (RuntimeError ''stack expects a non-empty TensorList'')"
| "torch_stack (t # ts) =
     (if list_all (\<lambda>u. shape u = shape t) ts
      then Inr (Tensor (length (t # ts) # shape t) (concat (map elems (t # ts))))
      else Inl (RuntimeError ''stack expects each tensor to be equal size''))"

text \<open>
  \<^verbatim>\<open>MmtlDataset\<close> and \<^verbatim>\<open>MmtlDataLoader\<close> are imported from \<^verbatim>\<open>metal.mmtl.data\<close>. The
  Payload touches \<^verbatim>\<open>data_loader.dataset\<close>, iterates over the dataset's items and
  reads and writes \<^verbatim>\<open>dataset.labels\<close>, a dict from a name to a label tensor.
\<close>

record 'x MmtlDataset =
  items :: "'x list"
  labels :: "(string, tensor) dict"

record 'x MmtlDataLoader =
  dataset :: "'x MmtlDataset"

subsection \<open>The Payload\<close>

text \<open>A task name stored in \<^verbatim>\<open>labels_to_tasks\<close> is a string or \<^verbatim>\<open>None\<close>.\<close>

record 'x Payload =
  name :: string
  data_loader :: "'x MmtlDataLoader"
  labels_to_tasks :: "(string, string option) dict"
  split :: string

definition dataset_labels :: "'x Payload \<Rightarrow> (string, tensor) dict" where
  "dataset_labels p = labels (dataset (data_loader p))"

definition set_dataset_labels :: "(string, tensor) dict \<Rightarrow> 'x Payload \<Rightarrow> 'x Payload" where
  "set_dataset_labels ls p =
     p\<lparr>data_loader := (data_loader p)\<lparr>dataset := (dataset (data_loader p))\<lparr>labels := ls\<rparr>\<rparr>\<rparr>"

text \<open>
  The two optional arguments of \<^verbatim>\<open>add_label_set\<close>. \<^verbatim>\<open>label_list\<close> is \<^verbatim>\<open>None\<close>, a
  tensor, or some other Python object (a plain list, say); \<^verbatim>\<open>label_fn\<close> is \<^verbatim>\<open>None\<close>,
  a callable (which may raise), or an object that is not callable.
\<close>

datatype 'o label_list_arg = ListNone | ListTensor tensor | ListOther 'o

datatype ('x, 'o) label_fn_arg = FnNone | Fn "'x \<Rightarrow> error + tensor" | FnOther 'o

text \<open>\<^verbatim>\<open>[label_fn(x) for x in self.data_loader.dataset]\<close>: the first failing call raises.\<close>

fun apply_label_fn :: "('x \<Rightarrow> error + tensor) \<Rightarrow> 'x list \<Rightarrow> error + tensor list" where
  "apply_label_fn f [] = Inr []"
| "apply_label_fn f (x # xs) =
     (case f x of
        Inl e \<Rightarrow> Inl e
      | Inr t \<Rightarrow> (case apply_label_fn f xs of Inl e \<Rightarrow> Inl e | Inr ts \<Rightarrow> Inr (t # ts)))"

text \<open>
  Lines 60 to 71 of \<^verbatim>\<open>add_label_set\<close>: the branch on \<^verbatim>\<open>label_fn\<close> comes first, each
  branch asserts that the other argument is \<^verbatim>\<open>None\<close> and that its own has the right
  type.
\<close>

definition new_labels :: "'x Payload \<Rightarrow> 'o label_list_arg \<Rightarrow> ('x, 'o) label_fn_arg \<Rightarrow> error + tensor" where
  "new_labels p label_list label_fn =
     (case label_fn of
        Fn f \<Rightarrow>
          (case label_list of
             ListNone \<Rightarrow>
               (case apply_label_fn f (items (dataset (data_loader p))) of
                  Inl e \<Rightarrow> Inl e
                | Inr ts \<Rightarrow> torch_stack ts)
           | _ \<Rightarrow> Inl AssertionError)
      | FnOther _ \<Rightarrow> Inl AssertionError
      | FnNone \<Rightarrow>
          (case label_list of
             ListNone \<Rightarrow> Inl (ValueError ''Incorrect label object type -- supply list or function'')
           | ListTensor t \<Rightarrow> Inr t
           | ListOther _ \<Rightarrow> Inl AssertionError))"

text \<open>
  Every operation returns the exception it raised, if any, and the Payload as the call
  left it. \<^verbatim>\<open>verbose\<close> only selects whether a message is printed; printing changes
  neither the Payload nor the control flow and is left out.
\<close>

definition add_label_set ::
  "string \<Rightarrow> string \<Rightarrow> 'o label_list_arg \<Rightarrow> ('x, 'o) label_fn_arg \<Rightarrow> 'x Payload
     \<Rightarrow> error option \<times> 'x Payload" where
  "add_label_set task_name label_name label_list label_fn p =
     (case new_labels p label_list label_fn of
        Inl e \<Rightarrow> (Some e, p)
      | Inr t \<Rightarrow>
          if dim t < 2
          then (Some (Exception ''New label_set must have at least two dimensions: [n, ?]''), p)
          else (None,
                (set_dataset_labels (AList.update task_name t (dataset_labels p)) p)
                  \<lparr>labels_to_tasks := AList.update label_name (Some task_name) (labels_to_tasks p)\<rparr>))"

text \<open>
  \<^verbatim>\<open>remove_label_set\<close> pops \<^verbatim>\<open>label_name\<close> from the dataset's labels first; when the
  lookup in \<^verbatim>\<open>labels_to_tasks\<close> then fails, the labels have already lost the entry.
\<close>

definition remove_label_set :: "string \<Rightarrow> 'x Payload \<Rightarrow> error option \<times> 'x Payload" where
  "remove_label_set label_name p =
     (case dict_pop label_name (dataset_labels p) of
        Inl e \<Rightarrow> (Some e, p)
      | Inr (_, ls) \<Rightarrow>
          (let p1 = set_dataset_labels ls p in
           case map_of (labels_to_tasks p1) label_name of
             None \<Rightarrow> (Some (KeyError label_name), p1)
           | Some task_name \<Rightarrow>
               (None, p1\<lparr>labels_to_tasks := AList.delete label_name (labels_to_tasks p1)\<rparr>)))"

definition retarget_labelset :: "string \<Rightarrow> string option \<Rightarrow> 'x Payload \<Rightarrow> error option \<times> 'x Payload" where
  "retarget_labelset label_name task_name p =
     (case map_of (labels_to_tasks p) label_name of
        None \<Rightarrow> (Some (KeyError label_name), p)
      | Some old_task \<Rightarrow>
          if old_task \<noteq> task_name
          then (None, p\<lparr>labels_to_tasks := AList.update label_name task_name (labels_to_tasks p)\<rparr>)
          else (None, p))"

text \<open>
  The loop of \<^verbatim>\<open>remap_labelsets\<close> runs over the keys of \<^verbatim>\<open>self.labels_to_tasks\<close>;
  its body only assigns to keys that exist, so the key view does not change under it.
\<close>

fun remap_loop ::
  "string list \<Rightarrow> (string, string option) dict \<Rightarrow> bool \<Rightarrow> 'x Payload \<Rightarrow> error option \<times> 'x Payload" where
  "remap_loop [] overrides default_none p = (None, p)"
| "remap_loop (label_name # rest) overrides default_none p =
     (case (case map_of overrides label_name of
              Some new_task \<Rightarrow> retarget_labelset label_name new_task p
            | None \<Rightarrow>
                if default_none then retarget_labelset label_name None p else (None, p)) of
        (Some e, p') \<Rightarrow> (Some e, p')
      | (None, p') \<Rightarrow> remap_loop rest overrides default_none p')"

definition remap_labelsets ::
  "(string, string option) dict \<Rightarrow> bool \<Rightarrow> 'x Payload \<Rightarrow> error option \<times> 'x Payload" where
  "remap_labelsets overrides default_none p =
     remap_loop (keys (labels_to_tasks p)) overrides default_none p"

section \<open>slicing/search.py\<close>

subsection \<open>Arguments and collaborators\<close>

text \<open>
  The parsed command line. \<^verbatim>\<open>--search_metric_mode\<close> is restricted by
  \<^verbatim>\<open>choices=["max", "min"]\<close>; the other options default to \<^verbatim>\<open>None\<close>.
\<close>

datatype mode = ModeMax | ModeMin

record args =
  max_search :: "int option"
  search_metric :: "string option"
  search_metric_mode :: mode
  config :: string
  device :: "string option"

text \<open>
  \<^verbatim>\<open>if args.device\<close> and \<^verbatim>\<open>if args.search_metric\<close> test truthiness: \<^verbatim>\<open>None\<close> and the
  empty string are false.
\<close>

definition truthy :: "string option \<Rightarrow> bool" where
  "truthy s = (case s of None \<Rightarrow> False | Some x \<Rightarrow> x \<noteq> [])"

text \<open>
  A value of the merged configuration is a JSON value read from the config file, of
  an unspecified type \<open>'v\<close>, or the string given as \<^verbatim>\<open>--device\<close>.
\<close>

datatype 'v pyval = Json 'v | Str string

type_synonym 'm metrics = "(string, 'm) dict"

type_synonym 'm collection = "(string \<times> string, 'm metrics) dict"

text \<open>
  What \<^verbatim>\<open>main\<close> calls and does not define: reading the JSON config, the tuner's
  \<^verbatim>\<open>config_generator\<close> (seeded, hence a function of the search space and
  \<^verbatim>\<open>max_search\<close>), \<^verbatim>\<open>isinstance(v, dict)\<close>, \<^verbatim>\<open>json.dumps\<close> and \<^verbatim>\<open>str\<close> on values,
  \<^verbatim>\<open>str\<close> on a sampled configuration, the launcher's argument parser and entrypoint,
  reading a metrics file, \<^verbatim>\<open>str\<close> on a metric value, \<^verbatim>\<open>pprint\<close>'s formatting, the
  clock and \<^verbatim>\<open>os.path.basename\<close>. The entrypoint and the metrics reader also get the
  number of trials launched before, since a second call with the same arguments need
  not give the same answer.
\<close>

record ('v, 'l, 'm) world =
  load_config :: "string \<Rightarrow> error + (string, (string, 'v) dict) dict"
  config_generator :: "(string, 'v) dict \<Rightarrow> int option \<Rightarrow> (string, 'v) dict list"
  is_dict :: "'v \<Rightarrow> bool"
  json_dumps :: "'v \<Rightarrow> string"
  str_value :: "'v \<Rightarrow> string"
  str_config :: "(string, 'v) dict \<Rightarrow> string"
  parse_args :: "string list \<Rightarrow> error + 'l"
  launch :: "nat \<Rightarrow> 'l \<Rightarrow> error + string"
  load_metrics :: "nat \<Rightarrow> string \<Rightarrow> error + 'm metrics"
  str_metric :: "'m \<Rightarrow> string"
  pformat :: "'m collection \<Rightarrow> string"
  now_str :: string
  basename :: "string \<Rightarrow> string"

subsection \<open>The trial loop (lines 26 to 51)\<close>

text \<open>\<^verbatim>\<open>d.update(e)\<close> assigns the items of \<open>e\<close> in order.\<close>

definition dict_update :: "('k, 'v) dict \<Rightarrow> ('k, 'v) dict \<Rightarrow> ('k, 'v) dict" where
  "dict_update d e = fold (\<lambda>(k, v). AList.update k v) e d"

definition json_items :: "(string, 'v) dict \<Rightarrow> (string, 'v pyval) dict" where
  "json_items d = map (\<lambda>(k, v). (k, Json v)) d"

text \<open>
  One flag and one value per item: a dict is replaced by its \<^verbatim>\<open>json.dumps\<close>, which
  \<^verbatim>\<open>str\<close> leaves as it is, as it does the device string.
\<close>

definition arg_value :: "('v, 'l, 'm) world \<Rightarrow> 'v pyval \<Rightarrow> string" where
  "arg_value w v =
     (case v of
        Str s \<Rightarrow> s
      | Json j \<Rightarrow> if is_dict w j then json_dumps w j else str_value w j)"

definition make_arg_list :: "('v, 'l, 'm) world \<Rightarrow> (string, 'v pyval) dict \<Rightarrow> string list" where
  "make_arg_list w full_conf = concat (map (\<lambda>(k, v). [''--'' @ k, arg_value w v]) full_conf)"

text \<open>
  The state of the loop: the argument lists the training entrypoint has been called
  with, in order, and \<^verbatim>\<open>config_to_metrics\<close>.
\<close>

record 'm trials =
  launched :: "string list list"
  config_to_metrics :: "'m collection"

fun run_trials ::
  "('v, 'l, 'm) world \<Rightarrow> args \<Rightarrow> (string, 'v) dict \<Rightarrow> (string, 'v) dict list \<Rightarrow> 'm trials
     \<Rightarrow> error option \<times> 'm trials" where
  "run_trials w a fixed_args [] s = (None, s)"
| "run_trials w a fixed_args (search_conf # rest) s =
     (let full_conf = dict_update [] (json_items search_conf) in
      if list_ex (\<lambda>k. k \<in> set (keys full_conf)) (keys fixed_args)
      then (Some (ValueError ''Fixed arg shows up in search space.''), s)
      else
        let full_conf = dict_update full_conf (json_items fixed_args);
            full_conf = (case device a of
                           None \<Rightarrow> full_conf
                         | Some d \<Rightarrow>
                             if d \<noteq> [] then dict_update full_conf [(''device'', Str d)]
                             else full_conf);
            arg_list = make_arg_list w full_conf
        in case parse_args w arg_list of
             Inl e \<Rightarrow> (Some e, s)
           | Inr launch_args \<Rightarrow>
               (let s1 = s\<lparr>launched := launched s @ [arg_list]\<rparr> in
                case launch w (length (launched s)) launch_args of
                  Inl e \<Rightarrow> (Some e, s1)
                | Inr metrics_path \<Rightarrow>
                    (case load_metrics w (length (launched s)) metrics_path of
                       Inl e \<Rightarrow> (Some e, s1)
                     | Inr metrics_dict \<Rightarrow>
                         run_trials w a fixed_args rest
                           (s1\<lparr>config_to_metrics :=
                                 AList.update (metrics_path, str_config w search_conf) metrics_dict
                                   (config_to_metrics s1)\<rparr>))))"

subsection \<open>Best selection (lines 53 to 72)\<close>

text \<open>
  Python's \<^verbatim>\<open>max(a, b)\<close> and \<^verbatim>\<open>min(a, b)\<close> return the first argument unless the second
  is strictly better.
\<close>

fun metric_cmp :: "mode \<Rightarrow> 'm::linorder \<Rightarrow> 'm \<Rightarrow> 'm" where
  "metric_cmp ModeMax x y = (if x < y then y else x)"
| "metric_cmp ModeMin x y = (if y < x then y else x)"

text \<open>
  The body of the scan for a true \<^verbatim>\<open>args.search_metric\<close>. \<^verbatim>\<open>not best_metric\<close> holds
  for \<^verbatim>\<open>None\<close> and for a metric equal to zero; \<^verbatim>\<open>metrics[args.search_metric]\<close> raises
  \<^verbatim>\<open>KeyError\<close> on a metrics dict without that name.
\<close>

fun scan ::
  "string \<Rightarrow> mode \<Rightarrow> ('m::{zero, linorder}) collection
     \<Rightarrow> (string \<times> string) option \<times> 'm option
     \<Rightarrow> error + ((string \<times> string) option \<times> 'm option)" where
  "scan metric md [] best = Inr best"
| "scan metric md ((path_config, metrics) # rest) (best_path_config, best_metric) =
     (case map_of metrics metric of
        None \<Rightarrow> Inl (KeyError metric)
      | Some curr_metric \<Rightarrow>
          (case best_metric of
             None \<Rightarrow> scan metric md rest (Some path_config, Some curr_metric)
           | Some best \<Rightarrow>
               if best = 0 then scan metric md rest (Some path_config, Some curr_metric)
               else if metric_cmp md curr_metric best = curr_metric
               then scan metric md rest (Some path_config, Some curr_metric)
               else scan metric md rest (best_path_config, best_metric)))"

definition select_best ::
  "string option \<Rightarrow> mode \<Rightarrow> ('m::{zero, linorder}) collection
     \<Rightarrow> error + ((string \<times> string) option \<times> 'm option)" where
  "select_best metric md coll =
     (case metric of
        None \<Rightarrow> Inr (None, None)
      | Some m \<Rightarrow> if m \<noteq> [] then scan m md coll (None, None) else Inr (None, None))"

subsection \<open>The report and \<^verbatim>\<open>main\<close> (lines 17 to 90)\<close>

definition newline :: string where
  "newline = [CHR 0x0A]"

definition str_best_metric :: "('v, 'l, 'm) world \<Rightarrow> 'm option \<Rightarrow> string" where
  "str_best_metric w best_metric =
     (case best_metric of None \<Rightarrow> ''None'' | Some v \<Rightarrow> str_metric w v)"

text \<open>
  The strings written to the report, one per \<^verbatim>\<open>write\<close>. Line 87 is a plain string
  literal, not an f-string: it is written as it stands.
\<close>

definition report_writes ::
  "('v, 'l, 'm) world \<Rightarrow> args \<Rightarrow> string \<Rightarrow> string \<Rightarrow> 'm option \<Rightarrow> 'm collection \<Rightarrow> string list" where
  "report_writes w a best_path best_config best_metric coll =
     (if truthy (search_metric a)
      then [''Path: '' @ best_path @ newline,
            ''Config: {best_config}'' @ newline,
            (case search_metric a of None \<Rightarrow> ''None'' | Some m \<Rightarrow> m) @ '': ''
              @ str_best_metric w best_metric @ newline]
      else [])
     @ [pformat w coll @ newline]"

definition save_path :: "('v, 'l, 'm) world \<Rightarrow> args \<Rightarrow> string" where
  "save_path w a = now_str w @ ''_'' @ basename w (config a) @ ''.txt''"

text \<open>
  What a run of \<^verbatim>\<open>main\<close> leaves behind: the exception that ended it, if any, the
  argument lists of the trials it launched, and the report file (its name and the
  strings written to it) if it got that far.
\<close>

record outcome =
  raised :: "error option"
  invoked :: "string list list"
  report_file :: "(string \<times> string list) option"

definition main :: "('v, 'l, 'm::{zero, linorder}) world \<Rightarrow> args \<Rightarrow> outcome" where
  "main w a =
     (case load_config w (config a) of
        Inl e \<Rightarrow> \<lparr>raised = Some e, invoked = [], report_file = None\<rparr>
      | Inr search_config \<Rightarrow>
          (case map_of search_config ''search_space'' of
             None \<Rightarrow> \<lparr>raised = Some AssertionError, invoked = [], report_file = None\<rparr>
           | Some search_space \<Rightarrow>
               (case map_of search_config ''fixed_args'' of
                  None \<Rightarrow> \<lparr>raised = Some AssertionError, invoked = [], report_file = None\<rparr>
                | Some fixed_args \<Rightarrow>
                    (case run_trials w a fixed_args
                            (config_generator w search_space (max_search a))
                            \<lparr>launched = [], config_to_metrics = []\<rparr> of
                       (Some e, s) \<Rightarrow> \<lparr>raised = Some e, invoked = launched s, report_file = None\<rparr>
                     | (None, s) \<Rightarrow>
                         (case select_best (search_metric a) (search_metric_mode a)
                                 (config_to_metrics s) of
                            Inl e \<Rightarrow> \<lparr>raised = Some e, invoked = launched s, report_file = None\<rparr>
                          | Inr (best_path_config, best_metric) \<Rightarrow>
                              (case best_path_config of
                                 None \<Rightarrow>
                                   \<lparr>raised = Some (TypeError ''cannot unpack non-iterable NoneType object''),
                                    invoked = launched s, report_file = None\<rparr>
                               | Some (best_path, best_config) \<Rightarrow>
                                   \<lparr>raised = None, invoked = launched s,
                                    report_file =
                                      Some (save_path w a,
                                            report_writes w a best_path best_config best_metric
                                              (config_to_metrics s))\<rparr>))))))"

section \<open>Vocabulary of the properties\<close>

text \<open>
  Two readings of "the two mappings stay consistent". \<open>same_keys\<close>: the dataset's
  label mapping and \<^verbatim>\<open>labels_to_tasks\<close> have the same keys. \<open>consistent\<close>: every
  label set with a task other than \<^verbatim>\<open>None\<close> finds that task among the keys of the
  dataset's label mapping, and every key there is the task of some label set.
\<close>

definition same_keys :: "'x Payload \<Rightarrow> bool" where
  "same_keys p = (set (keys (dataset_labels p)) = set (keys (labels_to_tasks p)))"

definition consistent :: "'x Payload \<Rightarrow> bool" where
  "consistent p =
     (list_all (\<lambda>(label_name, task). case task of
                   None \<Rightarrow> True
                 | Some task_name \<Rightarrow> task_name \<in> set (keys (dataset_labels p)))
        (labels_to_tasks p)
      \<and> list_all (\<lambda>task_name. list_ex (\<lambda>(label_name, task). task = Some task_name)
                                 (labels_to_tasks p))
          (keys (dataset_labels p)))"

text \<open>
  What \<^verbatim>\<open>remap_labelsets\<close> makes of the lookup function of \<^verbatim>\<open>labels_to_tasks\<close> on
  the label sets \<open>ks\<close> it has visited.
\<close>

definition remapped ::
  "(string, string option) dict \<Rightarrow> bool \<Rightarrow> string list
     \<Rightarrow> (string \<rightharpoonup> string option) \<Rightarrow> (string \<rightharpoonup> string option)" where
  "remapped overrides default_none ks m l =
     (if l \<in> set ks
      then (case map_of overrides l of
              Some new_task \<Rightarrow> Some new_task
            | None \<Rightarrow> if default_none then Some None else m l)
      else m l)"

text \<open>\<open>better md v u\<close>: under mode \<open>md\<close> the value \<open>v\<close> is at least as good as \<open>u\<close>.\<close>

definition better :: "mode \<Rightarrow> 'm::linorder \<Rightarrow> 'm \<Rightarrow> bool" where
  "better md v u = (case md of ModeMax \<Rightarrow> u \<le> v | ModeMin \<Rightarrow> v \<le> u)"

section \<open>Concrete inputs\<close>

text \<open>
  A Payload over a dataset of two items with the given two mappings, two label tensors
  of shape \<open>[2, 1]\<close> and one of shape \<open>[2]\<close>, and the two optional arguments at fixed
  types.
\<close>

definition payload_with ::
  "(string, tensor) dict \<Rightarrow> (string, string option) dict \<Rightarrow> unit Payload" where
  "payload_with ls l2t =
     \<lparr>name = ''P'',
      data_loader = \<lparr>dataset = \<lparr>items = [(), ()], labels = ls\<rparr>\<rparr>,
      labels_to_tasks = l2t,
      split = ''train''\<rparr>"

definition y1 :: tensor where
  "y1 = Tensor [2, 1] [1, 0]"

definition y2 :: tensor where
  "y2 = Tensor [2, 1] [0, 1]"

definition flat :: tensor where
  "flat = Tensor [2] [1, 0]"

definition list_arg :: "tensor \<Rightarrow> unit label_list_arg" where
  "list_arg t = ListTensor t"

definition no_fn :: "(unit, unit) label_fn_arg" where
  "no_fn = FnNone"

definition const_fn :: "tensor \<Rightarrow> (unit, unit) label_fn_arg" where
  "const_fn t = Fn (\<lambda>x. Inr t)"

text \<open>
  A world for runs of \<^verbatim>\<open>main\<close>. A JSON value is represented by its text. The search
  space has the one parameter \<open>x\<close>, the tuner yields \<open>x = 1\<close> and \<open>x = 2\<close>, trial \<open>i\<close>
  writes \<open>run<i>.json\<close> holding the metric \<open>A\<close> with the \<open>i\<close>-th of the given values.
  \<open>str_int\<close> prints an integer in decimal, as \<^verbatim>\<open>str\<close> does.
\<close>

fun str_nat :: "nat \<Rightarrow> string" where
  "str_nat n =
     (if n < 10 then [char_of (48 + n)]
      else str_nat (n div 10) @ [char_of (48 + n mod 10)])"

definition str_int :: "int \<Rightarrow> string" where
  "str_int i = (if i < 0 then ''-'' @ str_nat (nat (- i)) else str_nat (nat i))"

definition demo_pformat :: "int collection \<Rightarrow> string" where
  "demo_pformat coll =
     concat (map (\<lambda>((path, conf), ms).
                    path @ '' '' @ conf @ '':''
                      @ concat (map (\<lambda>(k, v). '' '' @ k @ ''='' @ str_int v) ms) @ newline)
               coll)"

definition demo_world ::
  "(string, string) dict \<Rightarrow> int list \<Rightarrow> (string, string list, int) world" where
  "demo_world fixed vals =
     \<lparr>load_config =
        (\<lambda>path. Inr [(''search_space'', [(''x'', ''[1, 2]'')]), (''fixed_args'', fixed)]),
      config_generator = (\<lambda>space n. [[(''x'', ''1'')], [(''x'', ''2'')]]),
      is_dict = (\<lambda>v. False),
      json_dumps = (\<lambda>v. v),
      str_value = (\<lambda>v. v),
      str_config = (\<lambda>c. concat (map (\<lambda>(k, v). k @ ''='' @ v) c)),
      parse_args = Inr,
      launch = (\<lambda>i l. Inr (''run'' @ str_nat i @ ''.json'')),
      load_metrics = (\<lambda>i path. if i < length vals then Inr [(''A'', vals ! i)]
                                 else Inl (External ''no metrics file'')),
      str_metric = str_int,
      pformat = demo_pformat,
      now_str = ''2019-05-01_12:00:00'',
      basename = (\<lambda>path. path)\<rparr>"

definition demo_args :: "string option \<Rightarrow> mode \<Rightarrow> args" where
  "demo_args metric md =
     \<lparr>max_search = None, search_metric = metric, search_metric_mode = md,
      config = ''conf.json'', device = None\<rparr>"

text \<open>
  The same world with a search space whose one parameter \<open>x\<close> has no candidate value,
  \<^verbatim>\<open>{"x": []}\<close>: the tuner yields no configuration.
\<close>

definition no_candidates_world ::
  "(string, string) dict \<Rightarrow> (string, string list, int) world" where
  "no_candidates_world fixed =
     (demo_world fixed [])
       \<lparr>load_config :=
          (\<lambda>path. Inr [(''search_space'', [(''x'', ''[]'')]), (''fixed_args'', fixed)]),
        config_generator := (\<lambda>space n. [])\<rparr>"

section \<open>Dictionaries and the Payload's fields\<close>

lemma delete_update_fresh:
  "k \<notin> set (keys d) \<Longrightarrow> AList.delete k (AList.update k v d) = d"
  by (induction d) (auto simp: keys_def)

lemma keys_update: "set (keys (AList.update k v d)) = insert k (set (keys d))"
  by (simp add: keys_def dom_update)

lemma keys_delete: "set (keys (AList.delete k d)) = set (keys d) - {k}"
  by (simp add: keys_def delete_keys)

lemma map_of_in_keys: "map_of d k = Some v \<Longrightarrow> k \<in> set (keys d)"
  by (auto simp: keys_def dest: map_of_SomeD intro: image_eqI [where x = "(k, v)"])

lemma in_keys_map_of: "k \<in> set (keys d) \<Longrightarrow> \<exists>v. map_of d k = Some v"
  by (metis keys_def list.set_map map_of_eq_None_iff not_Some_eq)

lemma dataset_labels_set [simp]:
  "dataset_labels (set_dataset_labels ls p) = ls"
  by (simp add: set_dataset_labels_def dataset_labels_def)

lemma labels_to_tasks_set [simp]:
  "labels_to_tasks (set_dataset_labels ls p) = labels_to_tasks p"
  by (simp add: set_dataset_labels_def)

lemma dataset_labels_l2t_update [simp]:
  "dataset_labels (p\<lparr>labels_to_tasks := m\<rparr>) = dataset_labels p"
  by (simp add: dataset_labels_def)

lemma set_dataset_labels_same [simp]:
  "set_dataset_labels (dataset_labels p) p = p"
  by (simp add: set_dataset_labels_def dataset_labels_def)

lemma set_dataset_labels_twice [simp]:
  "set_dataset_labels ls (set_dataset_labels ls' p) = set_dataset_labels ls p"
  by (simp add: set_dataset_labels_def)

lemma set_dataset_labels_l2t_update:
  "set_dataset_labels ls (p\<lparr>labels_to_tasks := m\<rparr>)
     = (set_dataset_labels ls p)\<lparr>labels_to_tasks := m\<rparr>"
  by (simp add: set_dataset_labels_def)

text \<open>The operations on the concrete Payloads, computed once.\<close>

lemma add_payload_with:
  "add_label_set tn ln (list_arg (Tensor [n, m] xs)) no_fn (payload_with ls l2t)
     = (None, payload_with (AList.update tn (Tensor [n, m] xs) ls)
                (AList.update ln (Some tn) l2t))"
  by (simp add: add_label_set_def new_labels_def list_arg_def no_fn_def payload_with_def
      dim_def set_dataset_labels_def dataset_labels_def)

lemma remove_payload_with:
  "remove_label_set ln (payload_with ls l2t) =
     (case map_of ls ln of
        None \<Rightarrow> (Some (KeyError ln), payload_with ls l2t)
      | Some _ \<Rightarrow>
          (case map_of l2t ln of
             None \<Rightarrow> (Some (KeyError ln), payload_with (AList.delete ln ls) l2t)
           | Some _ \<Rightarrow> (None, payload_with (AList.delete ln ls) (AList.delete ln l2t))))"
  by (simp add: remove_label_set_def dict_pop_def payload_with_def
      set_dataset_labels_def dataset_labels_def split: option.splits)

section \<open>\<^verbatim>\<open>add_label_set\<close>: its arguments\<close>

text \<open>
  Claim C8. A call that gives both \<^verbatim>\<open>label_list\<close> and \<^verbatim>\<open>label_fn\<close> raises (the
  \<^verbatim>\<open>assert\<close> of the branch taken fails) and leaves the Payload as it was; a call that
  gives neither raises the \<^verbatim>\<open>ValueError\<close> of line 71; so a call that succeeds was given
  exactly one of the two.
\<close>

theorem add_label_set_exactly_one:
  "(label_list \<noteq> ListNone \<and> label_fn \<noteq> FnNone \<longrightarrow>
      add_label_set task_name label_name label_list label_fn p = (Some AssertionError, p))
   \<and> add_label_set task_name label_name ListNone FnNone p =
       (Some (ValueError ''Incorrect label object type -- supply list or function''), p)
   \<and> (fst (add_label_set task_name label_name label_list label_fn p) = None \<longrightarrow>
        (label_list = ListNone) \<noteq> (label_fn = FnNone))"
  by (cases label_fn; cases label_list)
     (simp_all add: add_label_set_def new_labels_def)

text \<open>
  The theorem at a Payload without label sets: with a tensor and a function the call raises, with
  the tensor alone it succeeds.
\<close>

theorem add_label_set_exactly_one_witness:
  "list_arg y1 \<noteq> ListNone \<and> const_fn y1 \<noteq> FnNone
   \<and> add_label_set ''T'' ''L'' (list_arg y1) (const_fn y1) (payload_with [] [])
       = (Some AssertionError, payload_with [] [])
   \<and> fst (add_label_set ''T'' ''L'' (list_arg y1) no_fn (payload_with [] [])) = None
   \<and> (list_arg y1 = ListNone) \<noteq> (no_fn = FnNone)"
  using add_label_set_exactly_one
          [where label_list = "list_arg y1" and label_fn = "const_fn y1"
             and task_name = "''T''" and label_name = "''L''" and p = "payload_with [] []"]
        add_label_set_exactly_one
          [where label_list = "list_arg y1" and label_fn = no_fn
             and task_name = "''T''" and label_name = "''L''" and p = "payload_with [] []"]
  by (simp add: list_arg_def const_fn_def no_fn_def y1_def add_label_set_def new_labels_def
      dim_def)

text \<open>
  Claim C9. When the label array the call arrives at (the given tensor, or the stack
  of the function's results) has fewer than two dimensions, the call raises and the
  Payload is unchanged; when it has at least two, the call succeeds and both mappings
  hold the new entry. A tensor of shape \<open>[n]\<close> is refused, one of shape \<open>[n, 1]\<close> accepted.
\<close>

theorem add_label_set_dimensions:
  "(new_labels p label_list label_fn = Inr t \<and> dim t < 2 \<longrightarrow>
      add_label_set task_name label_name label_list label_fn p =
        (Some (Exception ''New label_set must have at least two dimensions: [n, ?]''), p))
   \<and> (new_labels p label_list label_fn = Inr t \<and> 2 \<le> dim t \<longrightarrow>
        fst (add_label_set task_name label_name label_list label_fn p) = None
        \<and> map_of (dataset_labels (snd (add_label_set task_name label_name label_list label_fn p)))
            task_name = Some t
        \<and> map_of (labels_to_tasks (snd (add_label_set task_name label_name label_list label_fn p)))
            label_name = Some (Some task_name))
   \<and> add_label_set task_name label_name (ListTensor (Tensor [n] xs)) FnNone p =
        (Some (Exception ''New label_set must have at least two dimensions: [n, ?]''), p)
   \<and> fst (add_label_set task_name label_name (ListTensor (Tensor [n, 1] xs)) FnNone p) = None"
  by (simp add: add_label_set_def new_labels_def dim_def update_conv')

theorem add_label_set_dimensions_witness:
  "new_labels (payload_with [] []) (list_arg flat) no_fn = Inr flat \<and> dim flat < 2
   \<and> add_label_set ''T'' ''L'' (list_arg flat) no_fn (payload_with [] []) =
       (Some (Exception ''New label_set must have at least two dimensions: [n, ?]''),
        payload_with [] [])
   \<and> new_labels (payload_with [] []) (list_arg y1) no_fn = Inr y1 \<and> 2 \<le> dim y1
   \<and> add_label_set ''T'' ''L'' (list_arg y1) no_fn (payload_with [] []) =
       (None, payload_with [(''T'', y1)] [(''L'', Some ''T'')])"
proof -
  have small: "new_labels (payload_with [] []) (list_arg flat) no_fn = Inr flat \<and> dim flat < 2"
    by (simp add: new_labels_def list_arg_def no_fn_def flat_def dim_def)
  have large: "new_labels (payload_with [] []) (list_arg y1) no_fn = Inr y1 \<and> 2 \<le> dim y1"
    by (simp add: new_labels_def list_arg_def no_fn_def y1_def dim_def)
  have added: "add_label_set ''T'' ''L'' (list_arg y1) no_fn (payload_with [] []) =
       (None, payload_with [(''T'', y1)] [(''L'', Some ''T'')])"
    by (simp add: y1_def add_payload_with)
  have refused: "add_label_set ''T'' ''L'' (list_arg flat) no_fn (payload_with [] []) =
       (Some (Exception ''New label_set must have at least two dimensions: [n, ?]''),
        payload_with [] [])"
    using small
      add_label_set_dimensions
        [where p = "payload_with [] []" and label_list = "list_arg flat" and label_fn = no_fn
           and t = flat and task_name = "''T''" and label_name = "''L''"]
    by blast
  show ?thesis
    using small large added refused by simp
qed

text \<open>
  Claim C10. With \<^verbatim>\<open>label_fn\<close> left at \<^verbatim>\<open>None\<close>, a \<^verbatim>\<open>label_list\<close> that is not a tensor (a
  plain Python list, say) fails the \<^verbatim>\<open>assert isinstance(label_list, torch.Tensor)\<close>
  and the Payload is unchanged; a call that succeeds was given a tensor.
\<close>

theorem add_label_set_needs_tensor:
  "add_label_set task_name label_name (ListOther x) FnNone p = (Some AssertionError, p)
   \<and> (fst (add_label_set task_name label_name label_list FnNone p) = None \<longrightarrow>
        (\<exists>t. label_list = ListTensor t \<and> 2 \<le> dim t))"
  by (cases label_list) (simp_all add: add_label_set_def new_labels_def)

theorem add_label_set_needs_tensor_witness:
  "fst (add_label_set ''T'' ''L'' (ListTensor y1) FnNone (payload_with [] [])) = None
   \<and> 2 \<le> dim y1
   \<and> add_label_set ''T'' ''L'' (ListOther [1, 0 :: int]) FnNone (payload_with [] [])
       = (Some AssertionError, payload_with [] [])"
  using add_label_set_needs_tensor
          [where task_name = "''T''" and label_name = "''L''" and x = "[1, 0 :: int]"
             and label_list = "ListTensor y1" and p = "payload_with [] []"]
  by (simp add: add_label_set_def new_labels_def y1_def dim_def)

section \<open>Adding and removing a label set\<close>

text \<open>
  Claim C2, as the code has it. When \<open>label_name\<close> is a key of neither mapping and the
  label set is added under a task of the same name, the removal succeeds and gives back
  the Payload as it was before the addition, both mappings included.
\<close>

theorem add_then_remove_fresh:
  assumes "label_name \<notin> set (keys (dataset_labels p))"
    and "label_name \<notin> set (keys (labels_to_tasks p))"
    and "add_label_set label_name label_name label_list label_fn p = (None, p')"
  shows "remove_label_set label_name p' = (None, p)"
proof -
  from assms(3) obtain t where
    p': "p' = (set_dataset_labels (AList.update label_name t (dataset_labels p)) p)
                \<lparr>labels_to_tasks :=
                   AList.update label_name (Some label_name) (labels_to_tasks p)\<rparr>"
    by (auto simp: add_label_set_def split: sum.splits if_splits)
  have pop: "dict_pop label_name (dataset_labels p') = Inr (t, dataset_labels p)"
    using assms(1) by (simp add: p' dict_pop_def update_conv' delete_update_fresh)
  show ?thesis
    using assms(2)
    by (simp add: remove_label_set_def pop)
       (simp add: p' update_conv' delete_update_fresh set_dataset_labels_l2t_update)
qed

theorem add_then_remove_fresh_witness:
  "''b'' \<notin> set (keys (dataset_labels (payload_with [(''a'', y1)] [(''a'', Some ''T'')])))
   \<and> ''b'' \<notin> set (keys (labels_to_tasks (payload_with [(''a'', y1)] [(''a'', Some ''T'')])))
   \<and> add_label_set ''b'' ''b'' (list_arg y2) no_fn (payload_with [(''a'', y1)] [(''a'', Some ''T'')])
       = (None, payload_with [(''a'', y1), (''b'', y2)] [(''a'', Some ''T''), (''b'', Some ''b'')])
   \<and> remove_label_set ''b''
         (payload_with [(''a'', y1), (''b'', y2)] [(''a'', Some ''T''), (''b'', Some ''b'')])
       = (None, payload_with [(''a'', y1)] [(''a'', Some ''T'')])"
proof -
  have fresh1: "''b'' \<notin> set (keys (dataset_labels (payload_with [(''a'', y1)] [(''a'', Some ''T'')])))"
    by (simp add: keys_def dataset_labels_def payload_with_def)
  have fresh2: "''b'' \<notin> set (keys (labels_to_tasks (payload_with [(''a'', y1)] [(''a'', Some ''T'')])))"
    by (simp add: keys_def payload_with_def)
  have added: "add_label_set ''b'' ''b'' (list_arg y2) no_fn
                 (payload_with [(''a'', y1)] [(''a'', Some ''T'')])
       = (None, payload_with [(''a'', y1), (''b'', y2)] [(''a'', Some ''T''), (''b'', Some ''b'')])"
    by (simp add: y2_def add_payload_with)
  from add_then_remove_fresh [OF fresh1 fresh2 added] fresh1 fresh2 added
  show ?thesis by blast
qed

text \<open>
  Claim C2, as stated, fails where the name is already in use: the addition overwrites
  the entry of label set \<open>a\<close> and the removal deletes it, so both mappings end up empty
  and not as they were.
\<close>

theorem add_then_remove_existing_counterexample:
  "add_label_set ''a'' ''a'' (list_arg y2) no_fn (payload_with [(''a'', y1)] [(''a'', Some ''a'')])
     = (None, payload_with [(''a'', y2)] [(''a'', Some ''a'')])
   \<and> remove_label_set ''a'' (payload_with [(''a'', y2)] [(''a'', Some ''a'')])
     = (None, payload_with [] [])
   \<and> dataset_labels (payload_with [] [])
       \<noteq> dataset_labels (payload_with [(''a'', y1)] [(''a'', Some ''a'')])
   \<and> labels_to_tasks (payload_with [] [])
       \<noteq> labels_to_tasks (payload_with [(''a'', y1)] [(''a'', Some ''a'')])"
  by (simp add: y1_def y2_def add_payload_with remove_payload_with)
     (simp add: payload_with_def dataset_labels_def)

section \<open>The two mappings side by side\<close>

text \<open>
  \<^verbatim>\<open>add_label_set\<close> stores the tensor under \<open>task_name\<close> and the task under
  \<open>label_name\<close>; \<^verbatim>\<open>remove_label_set\<close> pops \<open>label_name\<close> from both. Equality of the key
  sets is kept by an addition whose two names agree, by every removal, whether it
  raises or not, and by every remapping.
\<close>

lemma add_label_set_same_keys:
  assumes "same_keys p" and "add_label_set label_name label_name label_list label_fn p = (e, p')"
  shows "same_keys p'"
  using assms
  by (auto simp: add_label_set_def same_keys_def keys_update split: sum.splits if_splits)

lemma remove_label_set_same_keys:
  assumes "same_keys p" and "remove_label_set label_name p = (e, p')"
  shows "same_keys p'"
proof (cases "map_of (dataset_labels p) label_name")
  case None
  then show ?thesis
    using assms by (simp add: remove_label_set_def dict_pop_def)
next
  case (Some t)
  then have "label_name \<in> set (keys (labels_to_tasks p))"
    using assms(1) map_of_in_keys [OF Some] by (simp add: same_keys_def)
  then obtain task where "map_of (labels_to_tasks p) label_name = Some task"
    using in_keys_map_of by fastforce
  then show ?thesis
    using assms Some
    by (auto simp: remove_label_set_def dict_pop_def same_keys_def keys_delete)
qed

text \<open>
  Claim C4 on the code. On a Payload with no label sets, add label set \<open>L\<close> for task
  \<open>T\<close>: the dataset's mapping now has the key \<open>T\<close> and \<^verbatim>\<open>labels_to_tasks\<close> the key \<open>L\<close>, the
  key sets differ, and removing \<open>L\<close> raises \<^verbatim>\<open>KeyError\<close>. Add label set \<open>M\<close> for task \<open>L\<close>:
  every label set still reaches its tensor. Now removing label set \<open>L\<close> succeeds and
  pops the tensor stored under the key \<open>L\<close>, which is that of label set \<open>M\<close>: \<open>M\<close> is left
  with a task that has no tensor, and the tensor under \<open>T\<close> with no label set.
\<close>

theorem lockstep_broken_by_remove:
  "same_keys (payload_with [] []) \<and> consistent (payload_with [] [])
   \<and> add_label_set ''T'' ''L'' (list_arg y1) no_fn (payload_with [] [])
       = (None, payload_with [(''T'', y1)] [(''L'', Some ''T'')])
   \<and> \<not> same_keys (payload_with [(''T'', y1)] [(''L'', Some ''T'')])
   \<and> remove_label_set ''L'' (payload_with [(''T'', y1)] [(''L'', Some ''T'')])
       = (Some (KeyError ''L''), payload_with [(''T'', y1)] [(''L'', Some ''T'')])
   \<and> add_label_set ''L'' ''M'' (list_arg y2) no_fn (payload_with [(''T'', y1)] [(''L'', Some ''T'')])
       = (None, payload_with [(''T'', y1), (''L'', y2)] [(''L'', Some ''T''), (''M'', Some ''L'')])
   \<and> consistent (payload_with [(''T'', y1), (''L'', y2)] [(''L'', Some ''T''), (''M'', Some ''L'')])
   \<and> remove_label_set ''L''
         (payload_with [(''T'', y1), (''L'', y2)] [(''L'', Some ''T''), (''M'', Some ''L'')])
       = (None, payload_with [(''T'', y1)] [(''M'', Some ''L'')])
   \<and> \<not> consistent (payload_with [(''T'', y1)] [(''M'', Some ''L'')])
   \<and> \<not> same_keys (payload_with [(''T'', y1)] [(''M'', Some ''L'')])"
  by (simp add: y1_def y2_def add_payload_with remove_payload_with)
     (simp add: consistent_def same_keys_def payload_with_def dataset_labels_def keys_def)

section \<open>\<^verbatim>\<open>remap_labelsets\<close>\<close>

lemma retarget_labelset_present:
  assumes "map_of (labels_to_tasks p) l = Some old"
  shows "\<exists>m. retarget_labelset l t p = (None, p\<lparr>labels_to_tasks := m\<rparr>)
          \<and> keys m = keys (labels_to_tasks p)
          \<and> map_of m = (map_of (labels_to_tasks p))(l \<mapsto> t)"
proof (cases "old = t")
  case True
  have "(map_of (labels_to_tasks p))(l \<mapsto> t) = map_of (labels_to_tasks p)"
    using assms True by (auto simp: fun_eq_iff)
  then show ?thesis
    using assms True by (intro exI [of _ "labels_to_tasks p"]) (simp add: retarget_labelset_def)
next
  case False
  have "l \<in> fst ` set (labels_to_tasks p)"
    using map_of_in_keys [OF assms] by (simp add: keys_def)
  then have "keys (AList.update l t (labels_to_tasks p)) = keys (labels_to_tasks p)"
    by (simp add: keys_def update_keys)
  then show ?thesis
    using assms False
    by (intro exI [of _ "AList.update l t (labels_to_tasks p)"])
       (simp add: retarget_labelset_def update_conv')
qed

text \<open>
  The loop never raises: each name it visits is a key of \<^verbatim>\<open>labels_to_tasks\<close>. It leaves
  the keys and their order alone and changes nothing but \<^verbatim>\<open>labels_to_tasks\<close>.
\<close>

lemma remap_loop_result:
  assumes "set ks \<subseteq> set (keys (labels_to_tasks p))"
  shows "\<exists>m. remap_loop ks overrides default_none p = (None, p\<lparr>labels_to_tasks := m\<rparr>)
          \<and> keys m = keys (labels_to_tasks p)
          \<and> map_of m = remapped overrides default_none ks (map_of (labels_to_tasks p))"
  using assms
proof (induction ks arbitrary: p)
  case Nil
  show ?case
    by (intro exI [of _ "labels_to_tasks p"]) (simp add: remapped_def fun_eq_iff)
next
  case (Cons l ks)
  from Cons.prems have "l \<in> set (keys (labels_to_tasks p))"
    by simp
  then obtain old where old: "map_of (labels_to_tasks p) l = Some old"
    using in_keys_map_of by fastforce
  define t where "t = (case map_of overrides l of
                         Some new_task \<Rightarrow> new_task
                       | None \<Rightarrow> if default_none then None else old)"
  have "\<exists>m1. (case map_of overrides l of
                Some new_task \<Rightarrow> retarget_labelset l new_task p
              | None \<Rightarrow> if default_none then retarget_labelset l None p else (None, p))
             = (None, p\<lparr>labels_to_tasks := m1\<rparr>)
          \<and> keys m1 = keys (labels_to_tasks p)
          \<and> map_of m1 = (map_of (labels_to_tasks p))(l \<mapsto> t)"
  proof (cases "map_of overrides l")
    case (Some new_task)
    then show ?thesis
      using retarget_labelset_present [OF old, of new_task] by (simp add: t_def)
  next
    case None
    show ?thesis
    proof (cases default_none)
      case True
      then show ?thesis
        using retarget_labelset_present [OF old, of None] None by (simp add: t_def)
    next
      case False
      have "(map_of (labels_to_tasks p))(l \<mapsto> t) = map_of (labels_to_tasks p)"
        using old None False by (auto simp: fun_eq_iff t_def)
      then show ?thesis
        using None False by (intro exI [of _ "labels_to_tasks p"]) simp
    qed
  qed
  then obtain m1 where
    step: "(case map_of overrides l of
              Some new_task \<Rightarrow> retarget_labelset l new_task p
            | None \<Rightarrow> if default_none then retarget_labelset l None p else (None, p))
           = (None, p\<lparr>labels_to_tasks := m1\<rparr>)"
    and k1: "keys m1 = keys (labels_to_tasks p)"
    and m1: "map_of m1 = (map_of (labels_to_tasks p))(l \<mapsto> t)"
    by blast
  have "set ks \<subseteq> set (keys (labels_to_tasks (p\<lparr>labels_to_tasks := m1\<rparr>)))"
    using Cons.prems k1 by simp
  from Cons.IH [OF this] obtain m where
    rest: "remap_loop ks overrides default_none (p\<lparr>labels_to_tasks := m1\<rparr>)
             = (None, p\<lparr>labels_to_tasks := m\<rparr>)"
    and k: "keys m = keys m1"
    and m: "map_of m = remapped overrides default_none ks (map_of m1)"
    by auto
  have "remapped overrides default_none ks (map_of m1)
          = remapped overrides default_none (l # ks) (map_of (labels_to_tasks p))"
    using old by (auto simp: remapped_def m1 fun_eq_iff t_def split: option.splits if_splits)
  then show ?case
    using step rest k k1 m by (intro exI [of _ m]) simp
qed

lemma remap_labelsets_result:
  "\<exists>m. remap_labelsets overrides default_none p = (None, p\<lparr>labels_to_tasks := m\<rparr>)
        \<and> keys m = keys (labels_to_tasks p)
        \<and> map_of m = remapped overrides default_none (keys (labels_to_tasks p))
                        (map_of (labels_to_tasks p))"
  unfolding remap_labelsets_def by (rule remap_loop_result) simp

lemma remap_labelsets_same_keys:
  assumes "same_keys p" and "remap_labelsets overrides default_none p = (e, p')"
  shows "same_keys p'"
  using assms remap_labelsets_result [of overrides default_none p]
  by (auto simp: same_keys_def)

text \<open>
  Claim C7. \<^verbatim>\<open>remap_labelsets({}, default_none=True)\<close> returns normally, keeps the
  label-set names and maps each of them to \<^verbatim>\<open>None\<close>. With \<^verbatim>\<open>default_none\<close> unset the
  call returns normally, keeps the names, leaves the task of every label set that the
  override mapping does not list as it was, and gives every listed label set its
  override. No remapping touches the dataset's label mapping.
\<close>

theorem remap_labelsets_frame:
  "fst (remap_labelsets [] True p) = None
   \<and> keys (labels_to_tasks (snd (remap_labelsets [] True p))) = keys (labels_to_tasks p)
   \<and> (\<forall>l \<in> set (keys (labels_to_tasks p)).
         map_of (labels_to_tasks (snd (remap_labelsets [] True p))) l = Some None)
   \<and> fst (remap_labelsets overrides False p) = None
   \<and> keys (labels_to_tasks (snd (remap_labelsets overrides False p))) = keys (labels_to_tasks p)
   \<and> (\<forall>l. l \<notin> set (keys overrides) \<longrightarrow>
         map_of (labels_to_tasks (snd (remap_labelsets overrides False p))) l
           = map_of (labels_to_tasks p) l)
   \<and> (\<forall>l \<in> set (keys (labels_to_tasks p)). \<forall>t. map_of overrides l = Some t \<longrightarrow>
         map_of (labels_to_tasks (snd (remap_labelsets overrides False p))) l = Some t)
   \<and> dataset_labels (snd (remap_labelsets overrides default_none p)) = dataset_labels p"
proof -
  obtain m1 where r1: "remap_labelsets [] True p = (None, p\<lparr>labels_to_tasks := m1\<rparr>)"
    and k1: "keys m1 = keys (labels_to_tasks p)"
    and m1: "map_of m1 = remapped [] True (keys (labels_to_tasks p)) (map_of (labels_to_tasks p))"
    using remap_labelsets_result [of "[]" True p] by blast
  obtain m2 where r2: "remap_labelsets overrides False p = (None, p\<lparr>labels_to_tasks := m2\<rparr>)"
    and k2: "keys m2 = keys (labels_to_tasks p)"
    and m2: "map_of m2 = remapped overrides False (keys (labels_to_tasks p))
                           (map_of (labels_to_tasks p))"
    using remap_labelsets_result [of overrides False p] by blast
  obtain m3 where
    r3: "remap_labelsets overrides default_none p = (None, p\<lparr>labels_to_tasks := m3\<rparr>)"
    using remap_labelsets_result [of overrides default_none p] by blast
  have none_iff: "map_of overrides l = None" if "l \<notin> set (keys overrides)" for l
    using that by (simp add: keys_def map_of_eq_None_iff)
  show ?thesis
    by (simp add: r1 r2 r3 k1 k2 m1 m2 remapped_def none_iff)
qed

text \<open>
  The theorem on label sets \<open>a\<close> and \<open>b\<close>, both for task \<open>T1\<close>: the empty override with
  \<^verbatim>\<open>default_none\<close> sends both to \<^verbatim>\<open>None\<close>; the override of \<open>a\<close> to \<open>T2\<close> changes \<open>a\<close> and
  leaves \<open>b\<close>.
\<close>

theorem remap_labelsets_frame_witness:
  "''a'' \<in> set (keys (labels_to_tasks
             (payload_with [(''T1'', y1)] [(''a'', Some ''T1''), (''b'', Some ''T1'')])))
   \<and> ''b'' \<notin> set (keys [(''a'', Some ''T2'')])
   \<and> map_of [(''a'', Some ''T2'')] ''a'' = Some (Some ''T2'')
   \<and> remap_labelsets [] True
         (payload_with [(''T1'', y1)] [(''a'', Some ''T1''), (''b'', Some ''T1'')])
       = (None, payload_with [(''T1'', y1)] [(''a'', None), (''b'', None)])
   \<and> remap_labelsets [(''a'', Some ''T2'')] False
         (payload_with [(''T1'', y1)] [(''a'', Some ''T1''), (''b'', Some ''T1'')])
       = (None, payload_with [(''T1'', y1)] [(''a'', Some ''T2''), (''b'', Some ''T1'')])"
  using remap_labelsets_frame
          [where p = "payload_with [(''T1'', y1)] [(''a'', Some ''T1''), (''b'', Some ''T1'')]"
             and overrides = "[(''a'', Some ''T2'')]" and default_none = False]
  by (simp add: remap_labelsets_def retarget_labelset_def keys_def payload_with_def)

section \<open>The search driver: overlapping keys\<close>

lemma keys_dict_update:
  "set (keys (dict_update d e)) = set (keys d) \<union> set (keys e)"
proof (induction e arbitrary: d)
  case Nil
  show ?case by (simp add: dict_update_def keys_def)
next
  case (Cons x e)
  have "dict_update d (x # e) = dict_update (AList.update (fst x) (snd x) d) e"
    by (simp add: dict_update_def case_prod_beta)
  then show ?case
    using Cons.IH [of "AList.update (fst x) (snd x) d"]
    by (auto simp: keys_def dom_update)
qed

lemma keys_json_items: "keys (json_items c) = keys c"
  by (simp add: keys_def json_items_def case_prod_beta comp_def)

lemma run_trials_overlap:
  assumes "k \<in> set (keys c)" and "k \<in> set (keys fixed_args)"
  shows "run_trials w a fixed_args (c # rest) s
           = (Some (ValueError ''Fixed arg shows up in search space.''), s)"
proof -
  have "list_ex (\<lambda>k. k \<in> set (keys (dict_update [] (json_items c)))) (keys fixed_args)"
    using assms by (auto simp: list_ex_iff keys_dict_update keys_json_items)
  then show ?thesis by (simp add: Let_def)
qed

text \<open>
  Claim C6, as the code has it. Let the config file hold a \<open>search_space\<close> and
  \<open>fixed_args\<close> that share a key, and let the tuner yield at least one configuration,
  each of its configurations assigning every parameter of the search space. Then
  \<^verbatim>\<open>main\<close> raises the \<^verbatim>\<open>ValueError\<close> of line 31 at the first configuration: the training
  entrypoint has not been called and no report is written.
\<close>

theorem overlapping_keys_abort:
  assumes "load_config w (config a) = Inr search_config"
    and "map_of search_config ''search_space'' = Some search_space"
    and "map_of search_config ''fixed_args'' = Some fixed_args"
    and "set (keys search_space) \<inter> set (keys fixed_args) \<noteq> {}"
    and "config_generator w search_space (max_search a) \<noteq> []"
    and "\<forall>c \<in> set (config_generator w search_space (max_search a)).
           set (keys search_space) \<subseteq> set (keys c)"
  shows "main w a =
           \<lparr>raised = Some (ValueError ''Fixed arg shows up in search space.''),
            invoked = [], report_file = None\<rparr>"
proof -
  from assms(5) obtain c rest where
    configs: "config_generator w search_space (max_search a) = c # rest"
    by (cases "config_generator w search_space (max_search a)") auto
  from assms(4) obtain k where k: "k \<in> set (keys search_space)" "k \<in> set (keys fixed_args)"
    by blast
  with assms(6) configs have "k \<in> set (keys c)"
    by auto
  then have "run_trials w a fixed_args (c # rest) \<lparr>launched = [], config_to_metrics = []\<rparr>
           = (Some (ValueError ''Fixed arg shows up in search space.''),
              \<lparr>launched = [], config_to_metrics = []\<rparr>)"
    using k(2) by (rule run_trials_overlap)
  then show ?thesis
    using assms(1-3) configs by (simp add: main_def del: run_trials.simps)
qed

text \<open>
  The theorem with \<open>x\<close> both searched and fixed and a tuner that yields \<open>x = 1\<close> and
  \<open>x = 2\<close>: the hypotheses hold and the run ends in the \<^verbatim>\<open>ValueError\<close> with no trial
  launched.
\<close>

theorem overlapping_keys_abort_witness:
  "set (keys [(''x'', ''[1, 2]'')]) \<inter> set (keys [(''x'', ''32'')]) \<noteq> {}
   \<and> config_generator (demo_world [(''x'', ''32'')] [5, 9]) [(''x'', ''[1, 2]'')]
         (max_search (demo_args (Some ''A'') ModeMax)) \<noteq> []
   \<and> main (demo_world [(''x'', ''32'')] [5, 9]) (demo_args (Some ''A'') ModeMax)
       = \<lparr>raised = Some (ValueError ''Fixed arg shows up in search space.''),
          invoked = [], report_file = None\<rparr>"
proof -
  let ?w = "demo_world [(''x'', ''32'')] [5, 9]"
  let ?a = "demo_args (Some ''A'') ModeMax"
  let ?conf = "[(''search_space'', [(''x'', ''[1, 2]'')]), (''fixed_args'', [(''x'', ''32'')])]"
  have 1: "load_config ?w (config ?a) = Inr ?conf"
    by (simp add: demo_world_def)
  have 2: "map_of ?conf ''search_space'' = Some [(''x'', ''[1, 2]'')]"
    by simp
  have 3: "map_of ?conf ''fixed_args'' = Some [(''x'', ''32'')]"
    by simp
  have 4: "set (keys [(''x'', ''[1, 2]'')]) \<inter> set (keys [(''x'', ''32'')]) \<noteq> {}"
    by (simp add: keys_def)
  have 5: "config_generator ?w [(''x'', ''[1, 2]'')] (max_search ?a) \<noteq> []"
    by (simp add: demo_world_def)
  have 6: "\<forall>c \<in> set (config_generator ?w [(''x'', ''[1, 2]'')] (max_search ?a)).
             set (keys [(''x'', ''[1, 2]'')]) \<subseteq> set (keys c)"
    by (simp add: demo_world_def keys_def)
  from overlapping_keys_abort [OF 1 2 3 4 5 6] 4 5 show ?thesis
    by blast
qed

text \<open>
  Claim C6, as stated, fails where the tuner yields no configuration. The search space
  \<^verbatim>\<open>{"x": []}\<close> and the fixed arguments \<^verbatim>\<open>{"x": 32}\<close> share the key \<open>x\<close>, but the test of
  line 30 sits in the body of the trial loop, which never runs: no \<^verbatim>\<open>ValueError\<close> is
  raised. The run ends at line 74 in the \<^verbatim>\<open>TypeError\<close> of unpacking \<^verbatim>\<open>None\<close>, exactly as the
  run with the fixed arguments \<^verbatim>\<open>{"bs": 32}\<close>, which share no key with the search space.
\<close>

theorem overlapping_keys_no_candidates_counterexample:
  "set (keys [(''x'', ''[]'')]) \<inter> set (keys [(''x'', ''32'')]) \<noteq> {}
   \<and> main (no_candidates_world [(''x'', ''32'')]) (demo_args (Some ''A'') ModeMax)
       = \<lparr>raised = Some (TypeError ''cannot unpack non-iterable NoneType object''),
          invoked = [], report_file = None\<rparr>
   \<and> raised (main (no_candidates_world [(''x'', ''32'')]) (demo_args (Some ''A'') ModeMax))
       \<noteq> Some (ValueError ''Fixed arg shows up in search space.'')
   \<and> set (keys [(''x'', ''[]'')]) \<inter> set (keys [(''bs'', ''32'')]) = {}
   \<and> main (no_candidates_world [(''bs'', ''32'')]) (demo_args (Some ''A'') ModeMax)
       = main (no_candidates_world [(''x'', ''32'')]) (demo_args (Some ''A'') ModeMax)"
  by (simp add: main_def no_candidates_world_def demo_world_def demo_args_def select_best_def
      keys_def)

section \<open>The search driver: best selection\<close>

lemma metric_cmp_better: "metric_cmp md v u = v \<longleftrightarrow> better md v u"
  by (cases md) (auto simp: better_def)

lemma better_trans: "better md v u \<Longrightarrow> better md u t \<Longrightarrow> better md v t"
  by (cases md) (auto simp: better_def)

lemma better_linear: "\<not> better md v u \<Longrightarrow> better md u v"
  by (cases md) (auto simp: better_def)

lemma better_refl: "better md v v"
  by (cases md) (auto simp: better_def)

text \<open>
  As long as no metric value is zero, the scan keeps a running best that is at least
  as good as everything seen, and ends on an entry of the collection.
\<close>

lemma scan_nonzero:
  assumes "\<forall>(pc, ms) \<in> set coll. \<exists>v. map_of ms metric = Some v \<and> v \<noteq> 0" and "b \<noteq> 0"
  shows "\<exists>pc v. scan metric md coll (bpc, Some b) = Inr (pc, Some v)
           \<and> better md v b
           \<and> (\<forall>(pc', ms) \<in> set coll. \<forall>u. map_of ms metric = Some u \<longrightarrow> better md v u)
           \<and> ((pc = bpc \<and> v = b)
               \<or> (\<exists>pc' ms. pc = Some pc' \<and> (pc', ms) \<in> set coll \<and> map_of ms metric = Some v))"
  using assms
proof (induction coll arbitrary: bpc b)
  case Nil
  show ?case by (simp add: better_refl)
next
  case (Cons entry coll)
  obtain pc0 ms0 where entry: "entry = (pc0, ms0)" by (cases entry)
  from Cons.prems(1) entry obtain c where c: "map_of ms0 metric = Some c" "c \<noteq> 0"
    by auto
  have rest: "\<forall>(pc, ms) \<in> set coll. \<exists>v. map_of ms metric = Some v \<and> v \<noteq> 0"
    using Cons.prems(1) by simp
  have here: "(pc0, ms0) \<in> set (entry # coll)" "set coll \<subseteq> set (entry # coll)"
    by (auto simp: entry)
  show ?case
  proof (cases "better md c b")
    case True
    from Cons.IH [OF rest c(2), of "Some pc0"] obtain pc v where
      r: "scan metric md coll (Some pc0, Some c) = Inr (pc, Some v)"
      and vb: "better md v c"
      and all: "\<forall>(pc', ms) \<in> set coll. \<forall>u. map_of ms metric = Some u \<longrightarrow> better md v u"
      and origin: "(pc = Some pc0 \<and> v = c)
               \<or> (\<exists>pc' ms. pc = Some pc' \<and> (pc', ms) \<in> set coll \<and> map_of ms metric = Some v)"
      by blast
    have "scan metric md (entry # coll) (bpc, Some b) = Inr (pc, Some v)"
      using True c Cons.prems(2) r by (simp add: entry metric_cmp_better)
    moreover have "better md v b"
      using vb True by (rule better_trans)
    moreover have "\<forall>(pc', ms) \<in> set (entry # coll). \<forall>u. map_of ms metric = Some u
                     \<longrightarrow> better md v u"
      using all vb c by (auto simp: entry)
    moreover have "(pc = bpc \<and> v = b)
               \<or> (\<exists>pc' ms. pc = Some pc' \<and> (pc', ms) \<in> set (entry # coll)
                              \<and> map_of ms metric = Some v)"
      using here origin c(1) by blast
    ultimately show ?thesis by blast
  next
    case False
    from Cons.IH [OF rest Cons.prems(2), of bpc] obtain pc v where
      r: "scan metric md coll (bpc, Some b) = Inr (pc, Some v)"
      and vb: "better md v b"
      and all: "\<forall>(pc', ms) \<in> set coll. \<forall>u. map_of ms metric = Some u \<longrightarrow> better md v u"
      and origin: "(pc = bpc \<and> v = b)
               \<or> (\<exists>pc' ms. pc = Some pc' \<and> (pc', ms) \<in> set coll \<and> map_of ms metric = Some v)"
      by blast
    have "scan metric md (entry # coll) (bpc, Some b) = Inr (pc, Some v)"
      using False c Cons.prems(2) r by (simp add: entry metric_cmp_better)
    moreover have "better md v c"
      using vb better_linear [OF False] by (rule better_trans)
    then have "\<forall>(pc', ms) \<in> set (entry # coll). \<forall>u. map_of ms metric = Some u
                 \<longrightarrow> better md v u"
      using all c by (auto simp: entry)
    moreover have "(pc = bpc \<and> v = b)
               \<or> (\<exists>pc' ms. pc = Some pc' \<and> (pc', ms) \<in> set (entry # coll)
                              \<and> map_of ms metric = Some v)"
      using here origin by blast
    ultimately show ?thesis using vb by blast
  qed
qed

lemma select_best_nonzero:
  assumes "metric \<noteq> []" and "coll \<noteq> []"
    and "\<forall>(pc, ms) \<in> set coll. \<exists>v. map_of ms metric = Some v \<and> v \<noteq> 0"
  shows "\<exists>pc ms v. select_best (Some metric) md coll = Inr (Some pc, Some v)
           \<and> (pc, ms) \<in> set coll \<and> map_of ms metric = Some v
           \<and> (\<forall>(pc', ms') \<in> set coll. \<forall>u. map_of ms' metric = Some u \<longrightarrow> better md v u)"
proof -
  from assms(2) obtain pc0 ms0 rest where coll: "coll = (pc0, ms0) # rest"
    by (cases coll) auto
  from assms(3) coll obtain c where c: "map_of ms0 metric = Some c" "c \<noteq> 0"
    by auto
  have rest: "\<forall>(pc, ms) \<in> set rest. \<exists>v. map_of ms metric = Some v \<and> v \<noteq> 0"
    using assms(3) coll by simp
  from scan_nonzero [OF rest c(2), of md "Some pc0"] obtain pc v where
      r: "scan metric md rest (Some pc0, Some c) = Inr (pc, Some v)"
      and vb: "better md v c"
      and all: "\<forall>(pc', ms) \<in> set rest. \<forall>u. map_of ms metric = Some u \<longrightarrow> better md v u"
      and origin: "(pc = Some pc0 \<and> v = c)
               \<or> (\<exists>pc' ms. pc = Some pc' \<and> (pc', ms) \<in> set rest \<and> map_of ms metric = Some v)"
    by blast
  have sel: "select_best (Some metric) md coll = Inr (pc, Some v)"
    using assms(1) c r by (simp add: select_best_def coll)
  have all': "\<forall>(pc', ms') \<in> set coll. \<forall>u. map_of ms' metric = Some u \<longrightarrow> better md v u"
    using all vb c by (auto simp: coll)
  have "(pc0, ms0) \<in> set coll" "set rest \<subseteq> set coll"
    by (auto simp: coll)
  with origin c(1) obtain pc' ms where
    "pc = Some pc'" "(pc', ms) \<in> set coll" "map_of ms metric = Some v"
    by blast
  with sel all' show ?thesis by blast
qed

text \<open>The three metrics \<open>5, 9, 2\<close>: mode \<open>max\<close> selects the second entry, \<open>min\<close> the third.\<close>

lemma select_best_example:
  "select_best (Some ''A'') ModeMax
       [((''p1'', ''c1''), [(''A'', 5::int)]), ((''p2'', ''c2''), [(''A'', 9)]),
        ((''p3'', ''c3''), [(''A'', 2)])]
     = Inr (Some (''p2'', ''c2''), Some 9)
   \<and> select_best (Some ''A'') ModeMin
       [((''p1'', ''c1''), [(''A'', 5::int)]), ((''p2'', ''c2''), [(''A'', 9)]),
        ((''p3'', ''c3''), [(''A'', 2)])]
     = Inr (Some (''p3'', ''c3''), Some 2)"
  by (simp add: select_best_def)

text \<open>
  Claim C1 on the code. The collected metrics are \<open>A = 0\<close> for the first trial and
  \<open>A = 5\<close> for the second, the mode is \<open>min\<close>. The first entry sets the running best to
  \<open>0\<close>; at the second entry \<^verbatim>\<open>not best_metric\<close> holds again, since \<open>0\<close> is false, and the
  running best is replaced without comparison. The scan returns the entry with value
  \<open>5\<close>, while the minimum of the collected values is \<open>0\<close>.
\<close>

theorem best_selection_zero_metric:
  "select_best (Some ''A'') ModeMin
       [((''run0.json'', ''x=1''), [(''A'', 0::int)]), ((''run1.json'', ''x=2''), [(''A'', 5)])]
     = Inr (Some (''run1.json'', ''x=2''), Some 5)"
  by (simp add: select_best_def)

section \<open>The search driver: the report\<close>

text \<open>Without a search metric no run of \<^verbatim>\<open>main\<close> gets as far as the report.\<close>

lemma main_without_search_metric:
  assumes "\<not> truthy (search_metric a)"
  shows "report_file (main w a) = None \<and> raised (main w a) \<noteq> None"
proof -
  have "select_best (search_metric a) (search_metric_mode a) coll = Inr (None, None)"
    for coll :: "'c collection"
    using assms by (simp add: select_best_def truthy_def split: option.splits)
  then show ?thesis
    by (simp add: main_def split: sum.splits option.splits prod.splits)
qed

text \<open>
  Claim C3 on the code. \<^verbatim>\<open>--search_metric\<close> is omitted, both trials run and their
  metrics are collected. \<^verbatim>\<open>best_path_config\<close> is still \<^verbatim>\<open>None\<close> at line 74, unpacking it
  raises \<^verbatim>\<open>TypeError\<close>, and the run ends before the report file is opened.
\<close>

theorem no_search_metric_no_report:
  "main (demo_world [(''bs'', ''32'')] [5, 9]) (demo_args None ModeMax)
     = \<lparr>raised = Some (TypeError ''cannot unpack non-iterable NoneType object''),
        invoked = [[''--x'', ''1'', ''--bs'', ''32''], [''--x'', ''2'', ''--bs'', ''32'']],
        report_file = None\<rparr>"
  by code_simp

text \<open>In every report of a run with a search metric the second line is the same text.\<close>

lemma main_report_config_line:
  assumes "report_file (main w a) = Some (path, writes)" and "truthy (search_metric a)"
  shows "writes ! 1 = ''Config: {best_config}'' @ newline"
  using assms
  by (auto simp: main_def report_writes_def split: sum.splits option.splits prod.splits)

text \<open>
  Claim C5 on the code. With search metric \<open>A\<close> and mode \<open>max\<close> the second trial, of
  configuration \<open>x=2\<close>, is selected. The report gets the best path and the best metric
  value, then the dump; between them, where the best configuration belongs, stands the
  text \<^verbatim>\<open>Config: {best_config}\<close> with the braces unfilled.
\<close>

theorem report_config_line_literal:
  "main (demo_world [(''bs'', ''32'')] [5, 9]) (demo_args (Some ''A'') ModeMax)
     = \<lparr>raised = None,
        invoked = [[''--x'', ''1'', ''--bs'', ''32''], [''--x'', ''2'', ''--bs'', ''32'']],
        report_file = Some (''2019-05-01_12:00:00_conf.json.txt'',
          [''Path: run1.json'' @ newline,
           ''Config: {best_config}'' @ newline,
           ''A: 9'' @ newline,
           ''run0.json x=1: A=5'' @ newline @ ''run1.json x=2: A=9'' @ newline @ newline])\<rparr>"
  by code_simp

end
